theory Spec2Isabelle
  imports Main
begin

section \<open>JSON values and Python subscripting\<close>

text \<open>
  The handlers of \<^verbatim>\<open>tell_time_server.py\<close> work on the value that the JSON decoder
  returns: \<^verbatim>\<open>None\<close>, a bool, an int, a float, a str, a list or a dict with str keys.
  A dict is an association list in insertion order, looked up with \<open>map_of\<close>. The
  handlers never compute with a float, so its representation is a type parameter.
  A Python str is a \<open>string\<close>; the handlers only build strings from ASCII literals and
  pass every other string through unread.
\<close>

datatype 'f json =
    JNull
  | JBool bool
  | JInt int
  | JFloat 'f
  | JStr string
  | JArr "'f json list"
  | JObj "(string \<times> 'f json) list"

datatype subscript = Key string | Index nat

datatype py_type = NoneType | PyBool | PyInt | PyFloat | PyStr | PyList

datatype py_exception =
    KeyError subscript
  | IndexError string
  | TypeError py_type

text \<open>
  \<^verbatim>\<open>obj[k]\<close> for a decoded value \<open>obj\<close>. A dict raises KeyError for a key it does not
  hold (an int is never a key of a decoded dict); a list and a str raise IndexError out of
  range and TypeError for a str subscript; everything else is not subscriptable.
\<close>

fun getitem :: "'f json \<Rightarrow> subscript \<Rightarrow> py_exception + 'f json" where
  "getitem (JObj kvs) (Key k) =
     (case map_of kvs k of None \<Rightarrow> Inl (KeyError (Key k)) | Some v \<Rightarrow> Inr v)"
| "getitem (JObj kvs) (Index i) = Inl (KeyError (Index i))"
| "getitem (JArr xs) (Index i) =
     (if i < length xs then Inr (xs ! i) else Inl (IndexError ''list index out of range''))"
| "getitem (JArr xs) (Key k) = Inl (TypeError PyList)"
| "getitem (JStr s) (Index i) =
     (if i < length s then Inr (JStr [s ! i]) else Inl (IndexError ''string index out of range''))"
| "getitem (JStr s) (Key k) = Inl (TypeError PyStr)"
| "getitem JNull k = Inl (TypeError NoneType)"
| "getitem (JBool b) k = Inl (TypeError PyBool)"
| "getitem (JInt n) k = Inl (TypeError PyInt)"
| "getitem (JFloat x) k = Inl (TypeError PyFloat)"

section \<open>Decimal numerals and \<^verbatim>\<open>strftime\<close>\<close>

definition digit_char :: "nat \<Rightarrow> char" where
  "digit_char d = char_of (48 + d)"

fun decimal :: "nat \<Rightarrow> string" where
  "decimal n = (if n < 10 then [digit_char n] else decimal (n div 10) @ [digit_char (n mod 10)])"

declare decimal.simps [simp del]

definition zfill :: "nat \<Rightarrow> string \<Rightarrow> string" where
  "zfill w s = replicate (w - length s) (CHR ''0'') @ s"

text \<open>What \<^verbatim>\<open>datetime.now()\<close> returns: the fields that the format string reads.\<close>

record datetime =
  year :: nat
  month :: nat
  day :: nat
  hour :: nat
  minute :: nat
  second :: nat

text \<open>
  The ranges of a wall-clock reading. Python's type allows years from 1 to 9999; below
  1000 the C library decides whether \<^verbatim>\<open>%Y\<close> pads, so such years are left out.
\<close>

definition wall_clock :: "datetime \<Rightarrow> bool" where
  "wall_clock t = (1000 \<le> year t \<and> year t \<le> 9999 \<and> 1 \<le> month t \<and> month t \<le> 12 \<and>
     1 \<le> day t \<and> day t \<le> 31 \<and> hour t < 24 \<and> minute t < 60 \<and> second t < 60)"

text \<open>\<^verbatim>\<open>t.strftime('%Y-%m-%d %H:%M:%S')\<close>\<close>

definition strftime :: "datetime \<Rightarrow> string" where
  "strftime t =
     zfill 4 (decimal (year t)) @ ''-'' @ zfill 2 (decimal (month t)) @ ''-'' @
     zfill 2 (decimal (day t)) @ '' '' @ zfill 2 (decimal (hour t)) @ '':'' @
     zfill 2 (decimal (minute t)) @ '':'' @ zfill 2 (decimal (second t))"

section \<open>The task server\<close>

text \<open>
  What the interpreter supplies to a handler: the clock, and the text of the TypeError
  raised when a value of the given type is subscripted where it cannot be (the wording
  differs between Python versions).
\<close>

record runtime =
  now :: datetime
  type_error_text :: "py_type \<Rightarrow> string"

text \<open>
  \<^verbatim>\<open>str(e)\<close> for the exceptions of \<open>getitem\<close>. For a KeyError it is the repr of the
  key; the keys looked up are the source's literals, whose repr is the key in single
  quotes.
\<close>

fun str_exc :: "runtime \<Rightarrow> py_exception \<Rightarrow> string" where
  "str_exc rt (KeyError (Key k)) = [CHR 0x27] @ k @ [CHR 0x27]"
| "str_exc rt (KeyError (Index i)) = decimal i"
| "str_exc rt (IndexError m) = m"
| "str_exc rt (TypeError ty) = type_error_text rt ty"

text \<open>
  The request as Flask shows it to the view: \<open>is_json\<close> is \<^verbatim>\<open>request.is_json\<close>, which
  looks at the Content-Type header only; \<open>body\<close> is the decoded payload, \<open>None\<close> when
  the payload does not decode.
\<close>

record 'f request =
  is_json :: bool
  body :: "'f json option"

datatype http_exception = BadRequest | UnsupportedMediaType

datatype failure = Abort http_exception | Unhandled py_exception

text \<open>
  \<^verbatim>\<open>request.json\<close> and \<^verbatim>\<open>request.get_json()\<close>: a payload that does not decode makes
  Flask raise BadRequest; a Content-Type that is not JSON, UnsupportedMediaType.
\<close>

definition get_json :: "'f request \<Rightarrow> failure + 'f json" where
  "get_json req =
     (if is_json req then (case body req of None \<Rightarrow> Inl (Abort BadRequest) | Some v \<Rightarrow> Inr v)
      else Inl (Abort UnsupportedMediaType))"

text \<open>The body of the \<^verbatim>\<open>try\<close> block: \<open>task_id\<close> and \<open>user_message\<close>.\<close>

definition task_fields :: "'f json \<Rightarrow> py_exception + ('f json \<times> 'f json)" where
  "task_fields data =
     (case getitem data (Key ''id'') of Inl e \<Rightarrow> Inl e | Inr task_id \<Rightarrow>
       (case getitem data (Key ''message'') of Inl e \<Rightarrow> Inl e | Inr m \<Rightarrow>
         (case getitem m (Key ''parts'') of Inl e \<Rightarrow> Inl e | Inr ps \<Rightarrow>
           (case getitem ps (Index 0) of Inl e \<Rightarrow> Inl e | Inr p \<Rightarrow>
             (case getitem p (Key ''text'') of Inl e \<Rightarrow> Inl e | Inr user_message \<Rightarrow>
                Inr (task_id, user_message))))))"

definition error_body :: "string \<Rightarrow> 'f json" where
  "error_body msg = JObj [(''status'', JStr ''error''), (''message'', JStr msg)]"

definition agent_reply :: "string \<Rightarrow> 'f json" where
  "agent_reply reply_text =
     JObj [(''role'', JStr ''agent''),
           (''parts'', JArr [JObj [(''text'', JStr reply_text)]]),
           (''metadata'', JObj [])]"

text \<open>
  \<^verbatim>\<open>handle_task\<close>: the result is the pair of \<^verbatim>\<open>jsonify\<close>'s argument and the status
  code (200 when the view returns no code), or the exception that leaves the view.
  Every exception of the \<^verbatim>\<open>try\<close> block is one of the three that the handler catches.
\<close>

definition handle_task :: "runtime \<Rightarrow> 'f request \<Rightarrow> failure + ('f json \<times> nat)" where
  "handle_task rt req =
     (if \<not> is_json req then Inr (error_body ''Invalid JSON format'', 400)
      else (case get_json req of Inl x \<Rightarrow> Inl x | Inr j \<Rightarrow>
        (case j of JNull \<Rightarrow> Inr (error_body ''Request body is empty'', 400) | _ \<Rightarrow>
          (case get_json req of Inl x \<Rightarrow> Inl x | Inr data \<Rightarrow>
            (case task_fields data of
               Inl e \<Rightarrow> Inr (error_body (''Invalid task format: '' @ str_exc rt e), 400)
             | Inr (task_id, user_message) \<Rightarrow>
                 (let current_time = strftime (now rt);
                      reply_text = ''Current time is: '' @ current_time
                  in case getitem data (Key ''message'') of
                       Inl e \<Rightarrow> Inl (Unhandled e)
                     | Inr original \<Rightarrow>
                         Inr (JObj [(''status'', JStr ''success''),
                                    (''id'', task_id),
                                    (''messages'', JArr [original, agent_reply reply_text])],
                              200)))))))"

text \<open>\<^verbatim>\<open>agent_card\<close>: the view reads neither the request nor the clock.\<close>

definition agent_card :: "runtime \<Rightarrow> 'f request \<Rightarrow> failure + ('f json \<times> nat)" where
  "agent_card rt req =
     Inr (JObj [(''name'', JStr ''Time Teller''),
                (''description'',
                   JStr ''An agent that tells the current time based on the provided timezone.''),
                (''url'', JStr ''http://localhost:5000/tell_time''),
                (''capabilities'',
                   JObj [(''streaming'', JBool False), (''pushNotifications'', JBool False)]),
                (''version'', JStr ''1.0.0'')],
          200)"

section \<open>The client\<close>

text \<open>
  \<^verbatim>\<open>time_client.py\<close> talks to the server through \<^verbatim>\<open>requests\<close>. The network is a
  function from the call to the response, \<open>None\<close> when \<^verbatim>\<open>requests\<close> raises (no
  connection, timeout); every call made is appended to a log, so that the number of
  requests sent is part of the result. Printing is left out.
\<close>

datatype 'f http_call = Get string | Post string "'f json"

text \<open>
  \<open>body_text\<close> is \<^verbatim>\<open>res.text\<close>; \<open>decoded\<close> is \<^verbatim>\<open>res.json()\<close>, \<open>None\<close> when the
  decoder raises.
\<close>

record 'f response =
  status_code :: nat
  body_text :: string
  decoded :: "'f json option"

datatype client_error = Exception string | JSONDecodeError | RequestException

type_synonym 'f transport = "'f http_call \<Rightarrow> 'f response option"

definition base_url :: string where
  "base_url = ''http://localhost:5001''"

text \<open>Step 1 of the script, run when the module is loaded.\<close>

definition discovery ::
  "'f transport \<Rightarrow> 'f http_call list \<Rightarrow> (client_error + 'f json) \<times> 'f http_call list" where
  "discovery net sent =
     (let call = Get (base_url @ ''/.well-known/agent.json''); sent' = sent @ [call]
      in case net call of
           None \<Rightarrow> (Inl RequestException, sent')
         | Some res \<Rightarrow>
             if status_code res \<noteq> 200
             then (Inl (Exception (''Failed to discover agent: '' @ decimal (status_code res) @
                                   '' '' @ body_text res)), sent')
             else (case decoded res of
                     None \<Rightarrow> (Inl JSONDecodeError, sent')
                   | Some agent_info \<Rightarrow> (Inr agent_info, sent')))"



section \<open>The weather tool\<close>

text \<open>
  \<^verbatim>\<open>get_weather\<close> of \<^verbatim>\<open>weather_agent.py\<close>. \<^verbatim>\<open>str.lower\<close> works on all of Unicode and
  is a parameter; \<^verbatim>\<open>replace(" ", "")\<close> drops every space. The degree sign of the
  reports is written as its two UTF-8 bytes. The dicts are association lists.
\<close>

definition mock_weather_db :: "(string \<times> (string \<times> string) list) list" where
  "mock_weather_db =
     [(''newyork'', [(''status'', ''success''),
        (''report'', ''The weather in New York is sunny with a temperature of 25'' @
                     [CHR 0xC2, CHR 0xB0] @ ''C.'')]),
      (''london'', [(''status'', ''success''),
        (''report'', ''It'' @ [CHR 0x27] @ ''s cloudy in London with a temperature of 15'' @
                     [CHR 0xC2, CHR 0xB0] @ ''C.'')]),
      (''tokyo'', [(''status'', ''success''),
        (''report'', ''Tokyo is experiencing light rain and a temperature of 18'' @
                     [CHR 0xC2, CHR 0xB0] @ ''C.'')])]"

definition get_weather :: "(string \<Rightarrow> string) \<Rightarrow> string \<Rightarrow> (string \<times> string) list" where
  "get_weather lower city =
     (let city_normalized = filter (\<lambda>c. c \<noteq> CHR '' '') (lower city)
      in case map_of mock_weather_db city_normalized of
           Some entry \<Rightarrow> entry
         | None \<Rightarrow>
             [(''status'', ''error''),
              (''error_message'', ''Sorry, I don'' @ [CHR 0x27] @
                 ''t have weather information for '' @ [CHR 0x27] @ city @ [CHR 0x27] @ ''.'')])"

section \<open>Vocabulary of the specification\<close>

text \<open>
  The anchored pattern \<^verbatim>\<open>^\d{4}-\d{2}-\d{2} \d{2}:\d{2}:\d{2}$\<close>, as a template in
  which \<open>d\<close> stands for a decimal digit and every other character for itself. The
  \<^verbatim>\<open>$\<close> of Python's \<^verbatim>\<open>re\<close> also matches before a final newline.
\<close>

definition is_digit :: "char \<Rightarrow> bool" where
  "is_digit c = (48 \<le> (of_char c :: nat) \<and> (of_char c :: nat) \<le> 57)"

fun match_template :: "string \<Rightarrow> string \<Rightarrow> bool" where
  "match_template [] [] = True"
| "match_template (t # ts) (c # cs) =
     ((if t = CHR ''d'' then is_digit c else c = t) \<and> match_template ts cs)"
| "match_template ts cs = False"

definition timestamp_pattern :: "string \<Rightarrow> bool" where
  "timestamp_pattern s =
     (match_template ''dddd-dd-dd dd:dd:dd'' s \<or>
      match_template (''dddd-dd-dd dd:dd:dd'' @ [CHR 0x0A]) s)"

text \<open>A text mentions a name when the name occurs in it as a substring.\<close>

fun mentions :: "string \<Rightarrow> string \<Rightarrow> bool" where
  "mentions [] name = (name = [])"
| "mentions (c # cs) name = (take (length name) (c # cs) = name \<or> mentions cs name)"


section \<open>Concrete inputs\<close>

text \<open>The TypeError texts of CPython 3.12.\<close>

definition not_subscriptable :: "string \<Rightarrow> string" where
  "not_subscriptable ty = [CHR 0x27] @ ty @ [CHR 0x27] @ '' object is not subscriptable''"

fun cpython_type_error_text :: "py_type \<Rightarrow> string" where
  "cpython_type_error_text NoneType = not_subscriptable ''NoneType''"
| "cpython_type_error_text PyBool = not_subscriptable ''bool''"
| "cpython_type_error_text PyInt = not_subscriptable ''int''"
| "cpython_type_error_text PyFloat = not_subscriptable ''float''"
| "cpython_type_error_text PyStr =
     ''string indices must be integers, not '' @ [CHR 0x27] @ ''str'' @ [CHR 0x27]"
| "cpython_type_error_text PyList = ''list indices must be integers or slices, not str''"

definition example_runtime :: runtime where
  "example_runtime =
     \<lparr>now = \<lparr>year = 2025, month = 1, day = 2, hour = 3, minute = 4, second = 5\<rparr>,
      type_error_text = cpython_type_error_text\<rparr>"

definition user_message_of :: "string \<Rightarrow> unit json" where
  "user_message_of txt =
     JObj [(''role'', JStr ''user''), (''parts'', JArr [JObj [(''text'', JStr txt)]]),
           (''metadata'', JObj [])]"

definition task_of :: "string \<Rightarrow> string \<Rightarrow> unit json" where
  "task_of tid txt = JObj [(''id'', JStr tid), (''message'', user_message_of txt)]"

definition json_request :: "unit json \<Rightarrow> unit request" where
  "json_request data = \<lparr>is_json = True, body = Some data\<rparr>"

text \<open>A task whose \<open>parts\<close> list is empty, and one with no \<open>id\<close>.\<close>

definition task_without_parts :: "unit json" where
  "task_without_parts =
     JObj [(''id'', JStr ''t1''),
           (''message'', JObj [(''role'', JStr ''user''), (''parts'', JArr []),
                               (''metadata'', JObj [])])]"

definition task_without_id :: "unit json" where
  "task_without_id = JObj [(''message'', user_message_of ''hello'')]"

text \<open>A request that announces JSON and carries a payload that does not decode.\<close>

definition undecodable_request :: "unit request" where
  "undecodable_request = \<lparr>is_json = True, body = None\<rparr>"




text \<open>\<^verbatim>\<open>str.lower\<close> on ASCII text.\<close>

definition ascii_lower :: "string \<Rightarrow> string" where
  "ascii_lower s =
     map (\<lambda>c. if 65 \<le> (of_char c :: nat) \<and> (of_char c :: nat) \<le> 90
              then char_of ((of_char c :: nat) + 32) else c) s"

section \<open>The task endpoint: which bodies are accepted\<close>

lemma handle_task_success:
  assumes "handle_task rt req = Inr (resp, 200)"
  shows "\<exists>data task_id user_message original.
           is_json req \<and> body req = Some data \<and>
           task_fields data = Inr (task_id, user_message) \<and>
           getitem data (Key ''message'') = Inr original \<and>
           resp = JObj [(''status'', JStr ''success''), (''id'', task_id),
                        (''messages'',
                           JArr [original, agent_reply (''Current time is: '' @ strftime (now rt))])]"
  using assms
  by (auto simp: handle_task_def get_json_def Let_def
      split: if_splits option.splits sum.splits json.splits prod.splits)

lemma task_fields_shape:
  "task_fields data = Inr (task_id, user_message) \<longleftrightarrow>
     (\<exists>kvs m ps p rest.
        data = JObj kvs \<and> map_of kvs ''id'' = Some task_id \<and>
        map_of kvs ''message'' = Some (JObj m) \<and>
        map_of m ''parts'' = Some (JArr (JObj p # rest)) \<and>
        map_of p ''text'' = Some user_message)"
proof
  assume ok: "task_fields data = Inr (task_id, user_message)"
  then obtain kvs where d: "data = JObj kvs"
    by (cases data) (simp_all add: task_fields_def)
  from ok d obtain msg where i: "map_of kvs ''id'' = Some task_id"
    and mm: "map_of kvs ''message'' = Some msg"
    by (auto simp: task_fields_def split: option.splits sum.splits)
  from ok d i mm obtain m where m: "msg = JObj m"
    by (cases msg) (simp_all add: task_fields_def)
  from ok d i mm m obtain ps where pp: "map_of m ''parts'' = Some ps"
    by (auto simp: task_fields_def split: option.splits sum.splits)
  from ok d i mm m pp obtain items where ps: "ps = JArr items"
    by (cases ps) (auto simp: task_fields_def split: option.splits sum.splits if_splits)
  from ok d i mm m pp ps obtain first rest where it: "items = first # rest"
    by (cases items) (auto simp: task_fields_def split: option.splits sum.splits if_splits)
  from ok d i mm m pp ps it obtain p where p: "first = JObj p"
    by (cases first) (auto simp: task_fields_def split: option.splits sum.splits if_splits)
  from ok d i mm m pp ps it p have "map_of p ''text'' = Some user_message"
    by (auto simp: task_fields_def split: option.splits sum.splits if_splits)
  with d i mm m pp ps it p show "\<exists>kvs m ps p rest.
        data = JObj kvs \<and> map_of kvs ''id'' = Some task_id \<and>
        map_of kvs ''message'' = Some (JObj m) \<and>
        map_of m ''parts'' = Some (JArr (JObj p # rest)) \<and>
        map_of p ''text'' = Some user_message" by blast
next
  assume "\<exists>kvs m ps p rest.
        data = JObj kvs \<and> map_of kvs ''id'' = Some task_id \<and>
        map_of kvs ''message'' = Some (JObj m) \<and>
        map_of m ''parts'' = Some (JArr (JObj p # rest)) \<and>
        map_of p ''text'' = Some user_message"
  then show "task_fields data = Inr (task_id, user_message)"
    by (auto simp: task_fields_def)
qed

lemma task_fields_message:
  assumes "task_fields data = Inr (task_id, user_message)"
  shows "getitem data (Key ''id'') = Inr task_id \<and> (\<exists>original. getitem data (Key ''message'') = Inr original)"
  using assms by (auto simp: task_fields_def split: sum.splits)

lemma task_fields_not_null:
  "task_fields JNull = Inl (TypeError NoneType)"
  by (simp add: task_fields_def)

lemma handle_task_valid:
  assumes "is_json req" and "body req = Some data"
    and "task_fields data = Inr (task_id, user_message)"
    and "getitem data (Key ''message'') = Inr original"
  shows "handle_task rt req =
     Inr (JObj [(''status'', JStr ''success''), (''id'', task_id),
                (''messages'',
                   JArr [original, agent_reply (''Current time is: '' @ strftime (now rt))])],
          200)"
proof -
  have "data \<noteq> JNull" using assms(3) by (auto simp: task_fields_not_null)
  then show ?thesis using assms
    by (cases data) (simp_all add: handle_task_def get_json_def Let_def)
qed

lemma handle_task_never_unhandled:
  "handle_task rt req \<noteq> Inl (Unhandled e)"
  by (auto simp: handle_task_def get_json_def Let_def task_fields_def
      split: if_splits option.splits sum.splits json.splits prod.splits)

section \<open>The task endpoint: the success response\<close>

text \<open>
  C1. A request is accepted when its Content-Type announces JSON, its payload decodes to
  \<open>data\<close> and the field extraction on \<open>data\<close> succeeds. For every accepted request
  the handler returns a response with code 200 whose \<open>id\<close> field is the \<open>id\<close> field
  of the request.
\<close>

theorem handle_task_echoes_id:
  assumes "is_json req" and "body req = Some data"
    and "task_fields data = Inr (task_id, user_message)"
  shows "\<exists>resp. handle_task rt req = Inr (resp, 200) \<and>
           getitem data (Key ''id'') = Inr task_id \<and>
           getitem resp (Key ''id'') = Inr task_id"
proof -
  from task_fields_message [OF assms(3)] obtain original
    where i: "getitem data (Key ''id'') = Inr task_id"
      and m: "getitem data (Key ''message'') = Inr original"
    by blast
  from handle_task_valid [OF assms m, of rt] i show ?thesis
    by simp
qed

theorem handle_task_echoes_id_witness:
  "is_json (json_request (task_of ''t1'' ''hello'')) \<and>
   body (json_request (task_of ''t1'' ''hello'')) = Some (task_of ''t1'' ''hello'') \<and>
   task_fields (task_of ''t1'' ''hello'') = Inr (JStr ''t1'', JStr ''hello'') \<and>
   (\<exists>resp. handle_task example_runtime (json_request (task_of ''t1'' ''hello'')) = Inr (resp, 200) \<and>
      getitem (task_of ''t1'' ''hello'') (Key ''id'') = Inr (JStr ''t1'') \<and>
      getitem resp (Key ''id'') = Inr (JStr ''t1''))"
proof -
  have a: "is_json (json_request (task_of ''t1'' ''hello''))"
    by (simp add: json_request_def)
  have b: "body (json_request (task_of ''t1'' ''hello'')) = Some (task_of ''t1'' ''hello'')"
    by (simp add: json_request_def)
  have c: "task_fields (task_of ''t1'' ''hello'') = Inr (JStr ''t1'', JStr ''hello'')"
    by (simp add: task_fields_def task_of_def user_message_of_def)
  from handle_task_echoes_id [OF a b c, of example_runtime] a b c show ?thesis
    by blast
qed

text \<open>
  C2. For every accepted request, the first element of the \<open>messages\<close> list of the
  success response is the \<open>message\<close> value of the request, whatever it holds.
\<close>

theorem handle_task_echoes_message:
  assumes "is_json req" and "body req = Some data"
    and "task_fields data = Inr (task_id, user_message)"
  shows "\<exists>resp msgs original.
           handle_task rt req = Inr (resp, 200) \<and>
           getitem data (Key ''message'') = Inr original \<and>
           getitem resp (Key ''messages'') = Inr msgs \<and>
           getitem msgs (Index 0) = Inr original"
proof -
  from task_fields_message [OF assms(3)] obtain original
    where m: "getitem data (Key ''message'') = Inr original"
    by blast
  from handle_task_valid [OF assms m, of rt] m show ?thesis
    by simp
qed

theorem handle_task_echoes_message_witness:
  "is_json (json_request (task_of ''t1'' ''hello'')) \<and>
   body (json_request (task_of ''t1'' ''hello'')) = Some (task_of ''t1'' ''hello'') \<and>
   task_fields (task_of ''t1'' ''hello'') = Inr (JStr ''t1'', JStr ''hello'') \<and>
   (\<exists>resp msgs.
      handle_task example_runtime (json_request (task_of ''t1'' ''hello'')) = Inr (resp, 200) \<and>
      getitem resp (Key ''messages'') = Inr msgs \<and>
      getitem msgs (Index 0) = Inr (user_message_of ''hello''))"
proof -
  have a: "is_json (json_request (task_of ''t1'' ''hello''))"
    by (simp add: json_request_def)
  have b: "body (json_request (task_of ''t1'' ''hello'')) = Some (task_of ''t1'' ''hello'')"
    by (simp add: json_request_def)
  have c: "task_fields (task_of ''t1'' ''hello'') = Inr (JStr ''t1'', JStr ''hello'')"
    by (simp add: task_fields_def task_of_def user_message_of_def)
  have d: "getitem (task_of ''t1'' ''hello'') (Key ''message'') = Inr (user_message_of ''hello'')"
    by (simp add: task_of_def)
  from handle_task_echoes_message [OF a b c, of example_runtime] a b c d show ?thesis
    by auto
qed

text \<open>
  C10. For every accepted request, the \<open>messages\<close> list of the success response has
  exactly two elements, the original message and one reply; the reply has role
  \<open>agent\<close>, exactly one part and an empty metadata mapping.
\<close>

theorem handle_task_two_messages:
  assumes "is_json req" and "body req = Some data"
    and "task_fields data = Inr (task_id, user_message)"
  shows "\<exists>resp original reply part.
           handle_task rt req = Inr (resp, 200) \<and>
           getitem data (Key ''message'') = Inr original \<and>
           getitem resp (Key ''messages'') = Inr (JArr [original, reply]) \<and>
           getitem reply (Key ''role'') = Inr (JStr ''agent'') \<and>
           getitem reply (Key ''parts'') = Inr (JArr [part]) \<and>
           getitem reply (Key ''metadata'') = Inr (JObj [])"
proof -
  from task_fields_message [OF assms(3)] obtain original
    where m: "getitem data (Key ''message'') = Inr original"
    by blast
  from handle_task_valid [OF assms m, of rt] m show ?thesis
    by (simp add: agent_reply_def)
qed

theorem handle_task_two_messages_witness:
  "is_json (json_request (task_of ''t2'' ''what time is it'')) \<and>
   body (json_request (task_of ''t2'' ''what time is it'')) = Some (task_of ''t2'' ''what time is it'') \<and>
   task_fields (task_of ''t2'' ''what time is it'') = Inr (JStr ''t2'', JStr ''what time is it'') \<and>
   (\<exists>resp reply part.
      handle_task example_runtime (json_request (task_of ''t2'' ''what time is it'')) = Inr (resp, 200) \<and>
      getitem resp (Key ''messages'') = Inr (JArr [user_message_of ''what time is it'', reply]) \<and>
      getitem reply (Key ''role'') = Inr (JStr ''agent'') \<and>
      getitem reply (Key ''parts'') = Inr (JArr [part]) \<and>
      getitem reply (Key ''metadata'') = Inr (JObj []))"
proof -
  let ?d = "task_of ''t2'' ''what time is it''"
  have a: "is_json (json_request ?d)"
    by (simp add: json_request_def)
  have b: "body (json_request ?d) = Some ?d"
    by (simp add: json_request_def)
  have c: "task_fields ?d = Inr (JStr ''t2'', JStr ''what time is it'')"
    by (simp add: task_fields_def task_of_def user_message_of_def)
  have d: "getitem ?d (Key ''message'') = Inr (user_message_of ''what time is it'')"
    by (simp add: task_of_def)
  from handle_task_two_messages [OF a b c, of example_runtime] a b c d show ?thesis
    by auto
qed

text \<open>
  C7. Two accepted requests with the same \<open>id\<close>, handled at the same clock reading,
  get responses that are equal but for the echoed first message: the status, the id
  and the agent's reply are the same, whatever the message texts say.
\<close>

theorem handle_task_ignores_message_text:
  assumes "is_json req1" and "body req1 = Some data1"
    and "task_fields data1 = Inr (task_id, user_message1)"
    and "is_json req2" and "body req2 = Some data2"
    and "task_fields data2 = Inr (task_id, user_message2)"
    and "now rt1 = now rt2"
  shows "\<exists>original1 original2 reply.
           getitem data1 (Key ''message'') = Inr original1 \<and>
           getitem data2 (Key ''message'') = Inr original2 \<and>
           handle_task rt1 req1 =
             Inr (JObj [(''status'', JStr ''success''), (''id'', task_id),
                        (''messages'', JArr [original1, reply])], 200) \<and>
           handle_task rt2 req2 =
             Inr (JObj [(''status'', JStr ''success''), (''id'', task_id),
                        (''messages'', JArr [original2, reply])], 200)"
proof -
  from task_fields_message [OF assms(3)] obtain original1
    where m1: "getitem data1 (Key ''message'') = Inr original1"
    by blast
  from task_fields_message [OF assms(6)] obtain original2
    where m2: "getitem data2 (Key ''message'') = Inr original2"
    by blast
  from handle_task_valid [OF assms(1-3) m1, of rt1] handle_task_valid [OF assms(4-6) m2, of rt2]
    m1 m2 assms(7)
  show ?thesis by simp
qed

theorem handle_task_ignores_message_text_witness:
  "is_json (json_request (task_of ''t1'' ''time in Tokyo?'')) \<and>
   body (json_request (task_of ''t1'' ''time in Tokyo?'')) = Some (task_of ''t1'' ''time in Tokyo?'') \<and>
   task_fields (task_of ''t1'' ''time in Tokyo?'') = Inr (JStr ''t1'', JStr ''time in Tokyo?'') \<and>
   is_json (json_request (task_of ''t1'' ''time in Lima?'')) \<and>
   body (json_request (task_of ''t1'' ''time in Lima?'')) = Some (task_of ''t1'' ''time in Lima?'') \<and>
   task_fields (task_of ''t1'' ''time in Lima?'') = Inr (JStr ''t1'', JStr ''time in Lima?'') \<and>
   now example_runtime = now example_runtime \<and>
   (\<exists>reply.
      handle_task example_runtime (json_request (task_of ''t1'' ''time in Tokyo?'')) =
        Inr (JObj [(''status'', JStr ''success''), (''id'', JStr ''t1''),
                   (''messages'', JArr [user_message_of ''time in Tokyo?'', reply])], 200) \<and>
      handle_task example_runtime (json_request (task_of ''t1'' ''time in Lima?'')) =
        Inr (JObj [(''status'', JStr ''success''), (''id'', JStr ''t1''),
                   (''messages'', JArr [user_message_of ''time in Lima?'', reply])], 200))"
proof -
  let ?d1 = "task_of ''t1'' ''time in Tokyo?''"
  let ?d2 = "task_of ''t1'' ''time in Lima?''"
  have a1: "is_json (json_request ?d1)" by (simp add: json_request_def)
  have b1: "body (json_request ?d1) = Some ?d1" by (simp add: json_request_def)
  have c1: "task_fields ?d1 = Inr (JStr ''t1'', JStr ''time in Tokyo?'')"
    by (simp add: task_fields_def task_of_def user_message_of_def)
  have a2: "is_json (json_request ?d2)" by (simp add: json_request_def)
  have b2: "body (json_request ?d2) = Some ?d2" by (simp add: json_request_def)
  have c2: "task_fields ?d2 = Inr (JStr ''t1'', JStr ''time in Lima?'')"
    by (simp add: task_fields_def task_of_def user_message_of_def)
  have d1: "getitem ?d1 (Key ''message'') = Inr (user_message_of ''time in Tokyo?'')"
    by (simp add: task_of_def)
  have d2: "getitem ?d2 (Key ''message'') = Inr (user_message_of ''time in Lima?'')"
    by (simp add: task_of_def)
  from handle_task_ignores_message_text [OF a1 b1 c1 a2 b2 c2 refl, of example_runtime]
    a1 b1 c1 a2 b2 c2 d1 d2
  show ?thesis by auto
qed

section \<open>The reply text and the error responses\<close>

lemma is_digit_digit_char: "d < 10 \<Longrightarrow> is_digit (digit_char d)"
  by (simp add: is_digit_def digit_char_def)

lemma digit_char_0: "digit_char 0 = CHR ''0''"
  by code_simp

lemma zfill2_decimal:
  assumes "n < 100"
  shows "zfill 2 (decimal n) = [digit_char (n div 10), digit_char (n mod 10)]"
proof (cases "n < 10")
  case True
  then show ?thesis
    by (simp add: decimal.simps [of n] zfill_def digit_char_0)
next
  case False
  with assms have "n div 10 < 10" by simp
  with False show ?thesis
    by (simp add: decimal.simps [of n] decimal.simps [of "n div 10"] zfill_def)
qed

lemma zfill4_decimal:
  assumes "1000 \<le> n" and "n \<le> 9999"
  shows "zfill 4 (decimal n) =
    [digit_char (n div 1000), digit_char (n div 100 mod 10),
     digit_char (n div 10 mod 10), digit_char (n mod 10)]"
proof -
  have a: "\<not> n < 10" "\<not> n div 10 < 10" "\<not> n div 10 div 10 < 10" "n div 10 div 10 div 10 < 10"
    using assms by simp_all
  have b: "n div 10 div 10 = n div 100" "n div 10 div 10 div 10 = n div 1000"
    by (simp_all add: div_mult2_eq [symmetric])
  show ?thesis
    using a b
    by (simp add: decimal.simps [of n] decimal.simps [of "n div 10"]
        decimal.simps [of "n div 100"] decimal.simps [of "n div 1000"] zfill_def)
qed

lemma strftime_matches:
  assumes "wall_clock t"
  shows "match_template ''dddd-dd-dd dd:dd:dd'' (strftime t)"
proof -
  from assms have y: "1000 \<le> year t" "year t \<le> 9999"
    and r: "month t < 100" "day t < 100" "hour t < 100" "minute t < 100" "second t < 100"
    by (simp_all add: wall_clock_def)
  have d: "\<And>n. n < 100 \<Longrightarrow> is_digit (digit_char (n div 10)) \<and> is_digit (digit_char (n mod 10))"
    by (simp add: is_digit_digit_char)
  have dy: "is_digit (digit_char (year t div 1000))" "is_digit (digit_char (year t div 100 mod 10))"
    "is_digit (digit_char (year t div 10 mod 10))" "is_digit (digit_char (year t mod 10))"
    using y by (simp_all add: is_digit_digit_char)
  show ?thesis
    using dy d [OF r(1)] d [OF r(2)] d [OF r(3)] d [OF r(4)] d [OF r(5)]
    by (simp add: strftime_def zfill4_decimal [OF y] zfill2_decimal [OF r(1)]
        zfill2_decimal [OF r(2)] zfill2_decimal [OF r(3)] zfill2_decimal [OF r(4)]
        zfill2_decimal [OF r(5)])
qed

lemma strftime_example:
  "strftime (now example_runtime) = ''2025-01-02 03:04:05''"
  by code_simp


lemma task_fields_failures:
  "map_of kvs ''id'' = None \<Longrightarrow> task_fields (JObj kvs) = Inl (KeyError (Key ''id''))"
  "map_of kvs ''id'' = Some tid \<Longrightarrow> map_of kvs ''message'' = None \<Longrightarrow>
     task_fields (JObj kvs) = Inl (KeyError (Key ''message''))"
  "map_of kvs ''id'' = Some tid \<Longrightarrow> map_of kvs ''message'' = Some (JObj m) \<Longrightarrow>
     map_of m ''parts'' = None \<Longrightarrow> task_fields (JObj kvs) = Inl (KeyError (Key ''parts''))"
  "map_of kvs ''id'' = Some tid \<Longrightarrow> map_of kvs ''message'' = Some (JObj m) \<Longrightarrow>
     map_of m ''parts'' = Some (JArr []) \<Longrightarrow>
     task_fields (JObj kvs) = Inl (IndexError ''list index out of range'')"
  "map_of kvs ''id'' = Some tid \<Longrightarrow> map_of kvs ''message'' = Some (JObj m) \<Longrightarrow>
     map_of m ''parts'' = Some (JArr (JObj p # rest)) \<Longrightarrow> map_of p ''text'' = None \<Longrightarrow>
     task_fields (JObj kvs) = Inl (KeyError (Key ''text''))"
  by (simp_all add: task_fields_def)

lemma handle_task_rejected:
  assumes "is_json req" and "body req = Some data" and "data \<noteq> JNull"
    and "task_fields data = Inl e"
  shows "handle_task rt req = Inr (error_body (''Invalid task format: '' @ str_exc rt e), 400)"
  using assms by (cases data) (simp_all add: handle_task_def get_json_def)

text \<open>
  C3, as stated: the text of the reply's part is the bare timestamp. At the request of
  the specification's scenario, handled at 2025-01-02 03:04:05, the text is the
  timestamp behind the words \<open>Current time is: \<close>, and it does not match the anchored
  pattern.
\<close>

theorem reply_text_is_not_the_bare_timestamp:
  "handle_task example_runtime (json_request (task_of ''t1'' ''hello'')) =
     Inr (JObj [(''status'', JStr ''success''), (''id'', JStr ''t1''),
                (''messages'',
                   JArr [user_message_of ''hello'',
                         JObj [(''role'', JStr ''agent''),
                               (''parts'',
                                  JArr [JObj [(''text'', JStr ''Current time is: 2025-01-02 03:04:05'')]]),
                               (''metadata'', JObj [])]])],
          200) \<and>
   strftime (now example_runtime) = ''2025-01-02 03:04:05'' \<and>
   ''Current time is: 2025-01-02 03:04:05'' \<noteq> strftime (now example_runtime) \<and>
   \<not> timestamp_pattern ''Current time is: 2025-01-02 03:04:05''"
  by code_simp

text \<open>
  C3, amended: for every accepted request handled at a wall-clock reading, the reply
  has role \<open>agent\<close> and a single part whose text is \<open>Current time is: \<close> followed by
  the reading formatted as \<open>YYYY-MM-DD HH:MM:SS\<close>; the part after the prefix matches
  the anchored pattern.
\<close>

theorem handle_task_reply_text:
  assumes "is_json req" and "body req = Some data"
    and "task_fields data = Inr (task_id, user_message)"
    and "wall_clock (now rt)"
  shows "\<exists>resp original ts.
           handle_task rt req = Inr (resp, 200) \<and>
           getitem resp (Key ''messages'') =
             Inr (JArr [original,
                        JObj [(''role'', JStr ''agent''),
                              (''parts'', JArr [JObj [(''text'', JStr (''Current time is: '' @ ts))]]),
                              (''metadata'', JObj [])]]) \<and>
           ts = strftime (now rt) \<and> timestamp_pattern ts"
proof -
  from task_fields_message [OF assms(3)] obtain original
    where m: "getitem data (Key ''message'') = Inr original"
    by blast
  have "timestamp_pattern (strftime (now rt))"
    using strftime_matches [OF assms(4)] by (simp add: timestamp_pattern_def)
  with handle_task_valid [OF assms(1-3) m, of rt] show ?thesis
    by (simp add: agent_reply_def)
qed

theorem handle_task_reply_text_witness:
  "is_json (json_request (task_of ''t1'' ''hello'')) \<and>
   body (json_request (task_of ''t1'' ''hello'')) = Some (task_of ''t1'' ''hello'') \<and>
   task_fields (task_of ''t1'' ''hello'') = Inr (JStr ''t1'', JStr ''hello'') \<and>
   wall_clock (now example_runtime) \<and>
   (\<exists>resp original.
      handle_task example_runtime (json_request (task_of ''t1'' ''hello'')) = Inr (resp, 200) \<and>
      getitem resp (Key ''messages'') =
        Inr (JArr [original,
                   JObj [(''role'', JStr ''agent''),
                         (''parts'', JArr [JObj [(''text'', JStr ''Current time is: 2025-01-02 03:04:05'')]]),
                         (''metadata'', JObj [])]]) \<and>
      timestamp_pattern ''2025-01-02 03:04:05'')"
proof -
  have a: "is_json (json_request (task_of ''t1'' ''hello''))"
    by (simp add: json_request_def)
  have b: "body (json_request (task_of ''t1'' ''hello'')) = Some (task_of ''t1'' ''hello'')"
    by (simp add: json_request_def)
  have c: "task_fields (task_of ''t1'' ''hello'') = Inr (JStr ''t1'', JStr ''hello'')"
    by (simp add: task_fields_def task_of_def user_message_of_def)
  have d: "wall_clock (now example_runtime)"
    by (simp add: wall_clock_def example_runtime_def)
  from handle_task_reply_text [OF a b c d] a b c d strftime_example show ?thesis
    by auto
qed

text \<open>
  C4, as stated: the message of the 400 response names the offending field. For a task
  whose \<open>parts\<close> list is empty the message is the text of the IndexError, which names
  no field.
\<close>

theorem empty_parts_message_names_no_field:
  "is_json (json_request task_without_parts) \<and>
   body (json_request task_without_parts) = Some task_without_parts \<and>
   handle_task example_runtime (json_request task_without_parts) =
     Inr (JObj [(''status'', JStr ''error''),
                (''message'', JStr ''Invalid task format: list index out of range'')], 400) \<and>
   \<not> mentions ''Invalid task format: list index out of range'' ''parts''"
  by code_simp

text \<open>
  C4, amended: for every request that announces JSON and whose payload decodes to a
  value other than null on which the field extraction raises \<open>e\<close>, the handler returns
  code 400 and a body with status \<open>error\<close> whose message is \<open>Invalid task format: \<close>
  followed by the text of \<open>e\<close>. When a key is missing from its dict, \<open>e\<close> is the
  KeyError of that key alone (\<open>id\<close>, \<open>parts\<close>, \<open>text\<close>), whose text is the key in
  quotes; when the \<open>parts\<close> list is empty, \<open>e\<close> is the IndexError with the text
  \<open>list index out of range\<close>.
\<close>

theorem handle_task_invalid_format:
  assumes "is_json req" and "body req = Some data" and "data \<noteq> JNull"
    and "task_fields data = Inl e"
  shows "handle_task rt req =
           Inr (JObj [(''status'', JStr ''error''),
                      (''message'', JStr (''Invalid task format: '' @ str_exc rt e))], 400) \<and>
         (\<forall>kvs. data = JObj kvs \<and> map_of kvs ''id'' = None \<longrightarrow> e = KeyError (Key ''id'')) \<and>
         (\<forall>kvs tid m. data = JObj kvs \<and> map_of kvs ''id'' = Some tid \<and>
            map_of kvs ''message'' = Some (JObj m) \<and> map_of m ''parts'' = None \<longrightarrow>
            e = KeyError (Key ''parts'')) \<and>
         (\<forall>kvs tid m. data = JObj kvs \<and> map_of kvs ''id'' = Some tid \<and>
            map_of kvs ''message'' = Some (JObj m) \<and> map_of m ''parts'' = Some (JArr []) \<longrightarrow>
            e = IndexError ''list index out of range'') \<and>
         (\<forall>kvs tid m p rest. data = JObj kvs \<and> map_of kvs ''id'' = Some tid \<and>
            map_of kvs ''message'' = Some (JObj m) \<and>
            map_of m ''parts'' = Some (JArr (JObj p # rest)) \<and> map_of p ''text'' = None \<longrightarrow>
            e = KeyError (Key ''text''))"
proof -
  have "handle_task rt req =
           Inr (JObj [(''status'', JStr ''error''),
                      (''message'', JStr (''Invalid task format: '' @ str_exc rt e))], 400)"
    using handle_task_rejected [OF assms, of rt] by (simp add: error_body_def)
  moreover have "\<forall>kvs. data = JObj kvs \<and> map_of kvs ''id'' = None \<longrightarrow> e = KeyError (Key ''id'')"
    using assms(4) by (auto simp: task_fields_failures(1))
  moreover have "\<forall>kvs tid m. data = JObj kvs \<and> map_of kvs ''id'' = Some tid \<and>
            map_of kvs ''message'' = Some (JObj m) \<and> map_of m ''parts'' = None \<longrightarrow>
            e = KeyError (Key ''parts'')"
    using assms(4) by (auto simp: task_fields_failures(3))
  moreover have "\<forall>kvs tid m. data = JObj kvs \<and> map_of kvs ''id'' = Some tid \<and>
            map_of kvs ''message'' = Some (JObj m) \<and> map_of m ''parts'' = Some (JArr []) \<longrightarrow>
            e = IndexError ''list index out of range''"
    using assms(4) by (auto simp: task_fields_failures(4))
  moreover have "\<forall>kvs tid m p rest. data = JObj kvs \<and> map_of kvs ''id'' = Some tid \<and>
            map_of kvs ''message'' = Some (JObj m) \<and>
            map_of m ''parts'' = Some (JArr (JObj p # rest)) \<and> map_of p ''text'' = None \<longrightarrow>
            e = KeyError (Key ''text'')"
    using assms(4) by (auto simp: task_fields_failures(5))
  ultimately show ?thesis by blast
qed

theorem handle_task_invalid_format_witness:
  "is_json (json_request task_without_id) \<and>
   body (json_request task_without_id) = Some task_without_id \<and>
   task_without_id \<noteq> JNull \<and>
   task_fields task_without_id = Inl (KeyError (Key ''id'')) \<and>
   handle_task example_runtime (json_request task_without_id) =
     Inr (JObj [(''status'', JStr ''error''),
                (''message'', JStr (''Invalid task format: '' @ [CHR 0x27] @ ''id'' @ [CHR 0x27]))],
          400) \<and>
   mentions (''Invalid task format: '' @ [CHR 0x27] @ ''id'' @ [CHR 0x27]) ''id''"
proof -
  have a: "is_json (json_request task_without_id)"
    by (simp add: json_request_def)
  have b: "body (json_request task_without_id) = Some task_without_id"
    by (simp add: json_request_def)
  have c: "task_without_id \<noteq> JNull"
    by (simp add: task_without_id_def)
  have d: "task_fields task_without_id = Inl (KeyError (Key ''id''))"
    by (simp add: task_fields_def task_without_id_def)
  have e: "mentions (''Invalid task format: '' @ [CHR 0x27] @ ''id'' @ [CHR 0x27]) ''id''"
    by simp
  from handle_task_invalid_format [OF a b c d, of example_runtime] a b c d e show ?thesis
    by simp
qed

text \<open>
  C5. A request that announces JSON with a payload that does not decode passes the
  \<open>is_json\<close> test, and reading \<^verbatim>\<open>request.json\<close> raises Flask's BadRequest outside
  the \<^verbatim>\<open>try\<close> block: the view returns no body of its own, for any clock.
\<close>

theorem handle_task_undecodable_payload:
  "handle_task rt undecodable_request = Inl (Abort BadRequest)"
  by (simp add: handle_task_def get_json_def undecodable_request_def)

lemma handle_task_not_json:
  "\<not> is_json req \<Longrightarrow> handle_task rt req = Inr (error_body ''Invalid JSON format'', 400)"
  by (simp add: handle_task_def)

lemma handle_task_null:
  "is_json req \<Longrightarrow> body req = Some JNull \<Longrightarrow>
     handle_task rt req = Inr (error_body ''Request body is empty'', 400)"
  by (simp add: handle_task_def get_json_def)

section \<open>The discovery endpoint\<close>

text \<open>
  C6. The discovery view returns code 200 and the same descriptor for every request and
  every clock reading (so any two calls return the same content, which \<^verbatim>\<open>jsonify\<close>
  serialises in the same way); its name, description, url and version are the fixed
  strings, and both capabilities are false. The view has no state to change.
\<close>

theorem agent_card_fixed:
  "agent_card rt req = agent_card rt' req' \<and>
   (\<exists>card caps.
      agent_card rt req = Inr (card, 200) \<and>
      getitem card (Key ''name'') = Inr (JStr ''Time Teller'') \<and>
      getitem card (Key ''description'') =
        Inr (JStr ''An agent that tells the current time based on the provided timezone.'') \<and>
      getitem card (Key ''url'') = Inr (JStr ''http://localhost:5000/tell_time'') \<and>
      getitem card (Key ''capabilities'') = Inr caps \<and>
      getitem caps (Key ''streaming'') = Inr (JBool False) \<and>
      getitem caps (Key ''pushNotifications'') = Inr (JBool False) \<and>
      getitem card (Key ''version'') = Inr (JStr ''1.0.0''))"
  by (simp add: agent_card_def)

section \<open>Substrings\<close>



section \<open>The client\<close>

lemma discovery_cases:
  "net (Get (base_url @ ''/.well-known/agent.json'')) = None \<Longrightarrow>
     fst (discovery net sent) = Inl RequestException"
  "net (Get (base_url @ ''/.well-known/agent.json'')) = Some res \<Longrightarrow> status_code res \<noteq> 200 \<Longrightarrow>
     fst (discovery net sent) =
       Inl (Exception (''Failed to discover agent: '' @ decimal (status_code res) @ '' '' @ body_text res))"
  "net (Get (base_url @ ''/.well-known/agent.json'')) = Some res \<Longrightarrow> status_code res = 200 \<Longrightarrow>
     fst (discovery net sent) = (case decoded res of None \<Rightarrow> Inl JSONDecodeError | Some a \<Rightarrow> Inr a)"
  by (simp_all add: discovery_def Let_def split: option.splits)






section \<open>The weather tool\<close>


lemma get_weather_examples:
  "get_weather ascii_lower ''New York'' =
     [(''status'', ''success''),
      (''report'', ''The weather in New York is sunny with a temperature of 25'' @
                   [CHR 0xC2, CHR 0xB0] @ ''C.'')]"
  "get_weather ascii_lower ''Paris'' =
     [(''status'', ''error''),
      (''error_message'', ''Sorry, I don'' @ [CHR 0x27] @
         ''t have weather information for '' @ [CHR 0x27] @ ''Paris'' @ [CHR 0x27] @ ''.'')]"
  by code_simp+

end
